theory Spec2Isabelle
  imports Complex_Main "HOL-Library.Sublist" "HOL-Library.Product_Lexorder"
begin

section \<open>Python text primitives\<close>

text \<open>
  Text is a list of characters; a character stands for a code point below 256.
  The functions of this section are the string methods and the regular
  expressions that the two scripts call, written out for exactly the
  arguments the scripts pass.
\<close>

datatype error =
    IndexError
  | FileNotFoundError
  | ZeroDivisionError
  | StatisticsError
  | AttributeError
  | TypeError
  | UnicodeEncodeError

definition newline :: char where
  "newline = CHR 0x0A"

text \<open>\<^verbatim>\<open>str.isspace\<close> on one character (code points below 256).\<close>

definition isspace :: "char \<Rightarrow> bool" where
  "isspace c =
     (let n = (of_char c :: nat)
      in (9 \<le> n \<and> n \<le> 13) \<or> (28 \<le> n \<and> n \<le> 32) \<or> n = 133 \<or> n = 160)"

text \<open>The class \<^verbatim>\<open>[a-zA-Z0-9]\<close>.\<close>

definition alnum :: "char \<Rightarrow> bool" where
  "alnum c =
     (let n = (of_char c :: nat)
      in (48 \<le> n \<and> n \<le> 57) \<or> (65 \<le> n \<and> n \<le> 90) \<or> (97 \<le> n \<and> n \<le> 122))"

text \<open>The class \<^verbatim>\<open>[a-zA-Z0-9_/.-]\<close>.\<close>

definition path_char :: "char \<Rightarrow> bool" where
  "path_char c =
     (alnum c \<or> c = CHR ''_'' \<or> c = CHR ''/'' \<or> c = CHR ''.'' \<or> c = CHR ''-'')"

text \<open>\<^verbatim>\<open>s.strip(chars)\<close>, the set of characters given as a predicate.\<close>

definition strip_chars :: "(char \<Rightarrow> bool) \<Rightarrow> string \<Rightarrow> string" where
  "strip_chars p s = rev (dropWhile p (rev (dropWhile p s)))"

text \<open>\<^verbatim>\<open>s.strip()\<close>.\<close>

definition strip :: "string \<Rightarrow> string" where
  "strip s = strip_chars isspace s"

text \<open>The characters of \<^verbatim>\<open>'"\'.,;: '\<close>.\<close>

definition quote_punct :: "char \<Rightarrow> bool" where
  "quote_punct c = (c \<in> set [CHR 0x22, CHR 0x27, CHR ''.'', CHR '','', CHR '';'', CHR '':'', CHR '' ''])"

text \<open>\<^verbatim>\<open>s.split('\n')\<close>: always at least one piece.\<close>

fun split_nl :: "string \<Rightarrow> string list" where
  "split_nl [] = [[]]"
| "split_nl (c # cs) =
     (if c = newline then [] # split_nl cs
      else (case split_nl cs of [] \<Rightarrow> [[c]] | l # ls \<Rightarrow> (c # l) # ls))"

text \<open>\<^verbatim>\<open>'\n'.join(ls)\<close>.\<close>

fun join_nl :: "string list \<Rightarrow> string" where
  "join_nl [] = []"
| "join_nl [l] = l"
| "join_nl (l # ls) = l @ newline # join_nl ls"

text \<open>
  \<^verbatim>\<open>re.sub(r'<[^>]+>', '', s)\<close>. The scan goes left to right. At a
  \<^verbatim>\<open><\<close> the greedy class takes every character up to the next
  \<^verbatim>\<open>>\<close> (newlines too); the match needs at least one such character and the
  closing \<^verbatim>\<open>>\<close>. A match is dropped and the scan goes on behind it;
  without a match the character is kept.
\<close>

function strip_tags :: "string \<Rightarrow> string" where
  "strip_tags [] = []"
| "strip_tags (c # cs) =
     (if c = CHR ''<'' \<and> takeWhile (\<lambda>x. x \<noteq> CHR ''>'') cs \<noteq> []
         \<and> dropWhile (\<lambda>x. x \<noteq> CHR ''>'') cs \<noteq> []
      then strip_tags (tl (dropWhile (\<lambda>x. x \<noteq> CHR ''>'') cs))
      else c # strip_tags cs)"
  by pat_completeness auto
termination
proof (relation "measure length")
  show "wf (measure length)" by simp
next
  fix c :: char and cs :: string
  have "length (tl (dropWhile (\<lambda>x. x \<noteq> CHR ''>'') cs)) \<le> length cs"
    using length_dropWhile_le [of "\<lambda>x. x \<noteq> CHR ''>''" cs] by simp
  then show "(tl (dropWhile (\<lambda>x. x \<noteq> CHR ''>'') cs), c # cs) \<in> measure length"
    by simp
next
  fix c :: char and cs :: string
  show "(cs, c # cs) \<in> measure length" by simp
qed

text \<open>
  \<^verbatim>\<open>re.search(r'[a-zA-Z0-9_/.-]+\.[a-zA-Z0-9]+', s)\<close>, the match at the
  start of \<open>s\<close>. The first class takes the longest run of path characters and
  gives characters back one at a time; the dot of the pattern is a path
  character itself, so it stands inside that run, at an index \<open>j \<ge> 1\<close>, and
  the character behind it is alphanumeric. Backtracking tries the largest
  \<open>j\<close> first. The last class then takes the longest alphanumeric run.
\<close>

definition match_at :: "string \<Rightarrow> string option" where
  "match_at s =
     (let n = length (takeWhile path_char s);
          js = filter (\<lambda>j. s ! j = CHR ''.'' \<and> Suc j < length s \<and> alnum (s ! Suc j))
                 (rev [1..<n])
      in case js of
           [] \<Rightarrow> None
         | j # _ \<Rightarrow> Some (take (Suc j) s @ takeWhile alnum (drop (Suc j) s)))"

text \<open>The search takes the leftmost start position that has a match.\<close>

fun search_path :: "string \<Rightarrow> string option" where
  "search_path [] = None"
| "search_path (c # cs) =
     (case match_at (c # cs) of Some m \<Rightarrow> Some m | None \<Rightarrow> search_path cs)"

section \<open>ollama-api.py: finding the file to optimize\<close>

definition RENDERING_FILES :: "string list" where
  "RENDERING_FILES =
     [''render/fluid.wgsl'', ''render/fluidRender.ts'', ''src/renderers/FluidRenderer.js'',
      ''src/renderers/Renderer.js'', ''src/shaders/render.wgsl'']"

text \<open>\<^verbatim>\<open>xs[0]\<close>.\<close>

definition first_item :: "'a list \<Rightarrow> error + 'a" where
  "first_item xs = (case xs of [] \<Rightarrow> Inl IndexError | x # _ \<Rightarrow> Inr x)"

text \<open>
  The cleaning of the model's answer in \<^verbatim>\<open>identify_critical_file\<close>, from
  \<^verbatim>\<open>raw_result\<close> to the returned path: tags removed, the first line that
  is not blank (the whole text stripped when every line is blank), quotes and
  punctuation trimmed, the first path-shaped substring, else the first entry
  of \<^verbatim>\<open>RENDERING_FILES\<close>. \<open>extract_path\<close> is the value this computes;
  \<open>extract_path_debug\<close> below is the same block with what it prints on the
  way.
\<close>

definition first_line :: "string \<Rightarrow> error + string" where
  "first_line clean_result =
     (let lines = map strip (filter (\<lambda>line. strip line \<noteq> []) (split_nl clean_result))
      in if lines \<noteq> [] then first_item lines else Inr (strip clean_result))"

definition extract_path :: "string \<Rightarrow> error + string" where
  "extract_path raw_result =
     (let clean_result = strip_tags raw_result
      in case first_line clean_result of
           Inl e \<Rightarrow> Inl e
         | Inr line \<Rightarrow>
             (let cleaned_result = strip_chars quote_punct (strip line)
              in case search_path cleaned_result of
                   Some result \<Rightarrow> Inr result
                 | None \<Rightarrow> first_item RENDERING_FILES))"







section \<open>The file system and the generation service\<close>

text \<open>
  A path names a file by its spelling. A regular file is held as the text
  that its bytes encode in UTF-8, with the line ends as they are stored: a
  line feed, a carriage return, or the two in a row. The encoding is
  one-to-one, so two files have the same bytes exactly when they hold the
  same text here, and what copies or reads bytes (\<^verbatim>\<open>shutil.copy2\<close>,
  \<^verbatim>\<open>open(p, 'rb')\<close>) is written on this text. Files whose bytes are not
  UTF-8 are outside the model, and so is the second attempt of
  \<^verbatim>\<open>get_file_content\<close>, in Latin-1. Directories are known only as far as
  \<^verbatim>\<open>os.path.exists\<close> and \<^verbatim>\<open>os.makedirs\<close> look at them. Opening a
  file for writing creates or truncates it. The platform is POSIX.
\<close>

record filesystem =
  files :: "string \<rightharpoonup> string"
  dirs :: "string \<Rightarrow> bool"


definition path_exists :: "filesystem \<Rightarrow> string \<Rightarrow> bool" where
  "path_exists fs p = (files fs p \<noteq> None \<or> dirs fs p)"

definition carriage_return :: char where
  "carriage_return = CHR 0x0D"

text \<open>
  What a file opened in text mode (\<^verbatim>\<open>newline=None\<close>) does to the line
  ends when it is read: a carriage return with the line feed behind it, and a
  carriage return alone, each become one line feed.
\<close>

fun universal_newlines :: "string \<Rightarrow> string" where
  "universal_newlines [] = []"
| "universal_newlines [c] = (if c = carriage_return then [newline] else [c])"
| "universal_newlines (c # d # cs) =
     (if c = carriage_return \<and> d = newline then newline # universal_newlines cs
      else if c = carriage_return then newline # universal_newlines (d # cs)
      else c # universal_newlines (d # cs))"

text \<open>
  \<^verbatim>\<open>open(p, 'r', encoding='utf-8')\<close> and \<^verbatim>\<open>read()\<close>: the text of the
  file with its line ends translated.
\<close>

definition read_text :: "filesystem \<Rightarrow> string \<Rightarrow> error + string" where
  "read_text fs p =
     (case files fs p of None \<Rightarrow> Inl FileNotFoundError | Some c \<Rightarrow> Inr (universal_newlines c))"

text \<open>
  \<^verbatim>\<open>open(p, 'w', encoding='utf-8')\<close> and \<^verbatim>\<open>write(c)\<close>: a line feed is
  written as the line separator of the platform, which is the line feed
  itself, so the file holds the text as given.
\<close>

definition write_text :: "filesystem \<Rightarrow> string \<Rightarrow> string \<Rightarrow> filesystem" where
  "write_text fs p c = fs\<lparr>files := (files fs)(p \<mapsto> c)\<rparr>"

text \<open>\<^verbatim>\<open>shutil.copy2(src, dst)\<close> copies the bytes, line ends as stored.\<close>

definition copy2 :: "filesystem \<Rightarrow> string \<Rightarrow> string \<Rightarrow> error + filesystem" where
  "copy2 fs src dst =
     (case files fs src of
        None \<Rightarrow> Inl FileNotFoundError
      | Some c \<Rightarrow> Inr (fs\<lparr>files := (files fs)(dst \<mapsto> c)\<rparr>))"



text \<open>
  The answer of the generation service to one POST: the status code and the
  body, which is not JSON, a JSON object (with its \<^verbatim>\<open>response\<close> member:
  absent, a string, or a value of another type), or JSON of another kind.
\<close>

datatype json_member = Absent | Text string | NonText

datatype body = Undecodable | JsonObject json_member | JsonOther

record response =
  status_code :: int
  body :: body

text \<open>
  \<^verbatim>\<open>data.get('response', '')\<close> and the first use of the value as a string;
  a value that is no string ends in a \<^verbatim>\<open>TypeError\<close> there.
\<close>

definition response_text :: "json_member \<Rightarrow> error + string" where
  "response_text m = (case m of Absent \<Rightarrow> Inr [] | Text s \<Rightarrow> Inr s | NonText \<Rightarrow> Inl TypeError)"

section \<open>ollama-api.py: reading, writing and optimizing\<close>

definition COMPRESSED_FILE :: string where
  "COMPRESSED_FILE = ''repo-info/one-file-compressed.txt''"

definition UNCOMPRESSED_FILE :: string where
  "UNCOMPRESSED_FILE = ''repo-info/one-file-uncompressed.txt''"

text \<open>
  \<^verbatim>\<open>encode_file\<close>; the Base64 encoder of the standard library is the
  argument \<open>b64encode\<close>.
\<close>

definition encode_file :: "(string \<Rightarrow> string) \<Rightarrow> filesystem \<Rightarrow> string \<Rightarrow> string" where
  "encode_file b64encode fs file_path =
     (case files fs file_path of None \<Rightarrow> [] | Some c \<Rightarrow> b64encode c)"



text \<open>
  \<^verbatim>\<open>identify_critical_file\<close>. The result is the returned value
  (\<^verbatim>\<open>Optional[str]\<close>) or the exception that leaves the function, and the
  number of POST requests sent. The prompt does not influence the control
  flow and is left out; \<open>resp\<close> is what the service answers. What the
  function prints is left aside here; the block that cleans the answer is
  given with its output as \<open>extract_path_debug\<close> above.
\<close>

definition identify_critical_file ::
  "(string \<Rightarrow> string) \<Rightarrow> response \<Rightarrow> filesystem \<Rightarrow> (error + string option) \<times> nat" where
  "identify_critical_file b64encode resp fs =
     (let compressed_content = encode_file b64encode fs COMPRESSED_FILE;
          uncompressed_content = encode_file b64encode fs UNCOMPRESSED_FILE;
          default = (case first_item RENDERING_FILES of Inl e \<Rightarrow> Inl e | Inr f \<Rightarrow> Inr (Some f))
      in if compressed_content = [] \<and> uncompressed_content = [] then
           (case List.find (path_exists fs) RENDERING_FILES of
              Some fallback \<Rightarrow> (Inr (Some fallback), 0)
            | None \<Rightarrow> (default, 0))
         else if status_code resp = 200 then
           (case body resp of
              Undecodable \<Rightarrow> (default, 1)
            | JsonOther \<Rightarrow> (Inl AttributeError, 1)
            | JsonObject m \<Rightarrow>
                (case response_text m of
                   Inl e \<Rightarrow> (Inl e, 1)
                 | Inr raw_result \<Rightarrow>
                     (case extract_path raw_result of
                        Inl e \<Rightarrow> (Inl e, 1)
                      | Inr result \<Rightarrow> (Inr (Some result), 1))))
         else (default, 1))"






section \<open>difflib\<close>





























section \<open>m1\_performance\_compare.py\<close>

text \<open>
  The module globals \<^verbatim>\<open>ORIGINAL_FILE\<close> (the backup) and
  \<^verbatim>\<open>OPTIMIZED_FILE\<close> (the live file): \<^verbatim>\<open>None\<close> or a path.
\<close>

record globals =
  ORIGINAL_FILE :: "string option"
  OPTIMIZED_FILE :: "string option"

definition NUM_TEST_RUNS :: nat where
  "NUM_TEST_RUNS = 5"

text \<open>Truth value of a global: \<^verbatim>\<open>None\<close> and the empty string are false.\<close>

definition truthy :: "string option \<Rightarrow> bool" where
  "truthy p = (case p of None \<Rightarrow> False | Some s \<Rightarrow> s \<noteq> [])"

text \<open>
  \<^verbatim>\<open>temporarily_restore_original\<close> returns \<^verbatim>\<open>False\<close> or the text
  it read from the live file.
\<close>

datatype restored = ReturnedFalse | Content string

definition temporarily_restore_original :: "globals \<Rightarrow> filesystem \<Rightarrow> restored \<times> filesystem" where
  "temporarily_restore_original g fs =
     (if \<not> (truthy (ORIGINAL_FILE g) \<and> truthy (OPTIMIZED_FILE g)) then (ReturnedFalse, fs)
      else
        (case (ORIGINAL_FILE g, OPTIMIZED_FILE g) of
           (Some original_file, Some optimized_file) \<Rightarrow>
             (case read_text fs optimized_file of
                Inl e \<Rightarrow> (ReturnedFalse, fs)
              | Inr optimized_content \<Rightarrow>
                  (case read_text fs original_file of
                     Inl e \<Rightarrow> (ReturnedFalse, fs)
                   | Inr original_content \<Rightarrow>
                       (Content optimized_content, write_text fs optimized_file original_content)))
         | _ \<Rightarrow> (ReturnedFalse, fs)))"

definition restore_optimized :: "globals \<Rightarrow> string \<Rightarrow> filesystem \<Rightarrow> bool \<times> filesystem" where
  "restore_optimized g optimized_content fs =
     (case OPTIMIZED_FILE g of
        None \<Rightarrow> (False, fs)
      | Some optimized_file \<Rightarrow>
          if optimized_file = [] then (False, fs)
          else (True, write_text fs optimized_file optimized_content))"

text \<open>
  \<^verbatim>\<open>statistics.normalvariate(0, 1)\<close>. The module \<^verbatim>\<open>statistics\<close> of
  the standard library defines no \<^verbatim>\<open>normalvariate\<close> (the function of
  that name belongs to the module \<^verbatim>\<open>random\<close>), so the attribute lookup
  raises \<^verbatim>\<open>AttributeError\<close> and no number is drawn. Numbers are real
  numbers.
\<close>

definition normalvariate :: "real \<Rightarrow> real \<Rightarrow> error + real" where
  "normalvariate mu sigma = Inl AttributeError"

definition simulate_rendering_test :: "bool \<Rightarrow> error + real" where
  "simulate_rendering_test is_original =
     (let base_time = 16.67
      in case normalvariate 0 1 of
           Inl e \<Rightarrow> Inl e
         | Inr z \<Rightarrow>
             (let variation = base_time * 0.1 * z
              in if is_original then Inr (base_time + variation)
                 else
                   (case normalvariate 0 1 of
                      Inl e \<Rightarrow> Inl e
                    | Inr z' \<Rightarrow>
                        (let improvement = base_time * (0.2 + 0.1 * z')
                         in Inr ((base_time - improvement) + variation)))))"

text \<open>
  One sampling loop of \<^verbatim>\<open>measure_performance\<close>: \<open>n\<close> calls of the
  measurement source \<open>test\<close>, each result appended; the first exception ends
  the loop. The source is an argument, with a state of its own, so that a
  source that raises can be written down; the script passes
  \<^verbatim>\<open>simulate_rendering_test\<close>.
\<close>

fun sample_runs ::
  "(bool \<Rightarrow> 's \<Rightarrow> (error + real) \<times> 's) \<Rightarrow> bool \<Rightarrow> nat \<Rightarrow> 's \<Rightarrow> real list \<Rightarrow> (error + real list) \<times> 's" where
  "sample_runs test is_original 0 st frame_times = (Inr frame_times, st)"
| "sample_runs test is_original (Suc n) st frame_times =
     (case test is_original st of
        (Inl e, st') \<Rightarrow> (Inl e, st')
      | (Inr frame_time, st') \<Rightarrow> sample_runs test is_original n st' (frame_times @ [frame_time]))"

definition measure_performance ::
  "(bool \<Rightarrow> 's \<Rightarrow> (error + real) \<times> 's) \<Rightarrow> globals \<Rightarrow> filesystem \<Rightarrow> 's
     \<Rightarrow> (real list \<times> real list) \<times> filesystem \<times> 's" where
  "measure_performance test g fs st =
     (case temporarily_restore_original g fs of
        (ReturnedFalse, fs1) \<Rightarrow> (([], []), fs1, st)
      | (Content optimized_content, fs1) \<Rightarrow>
          if optimized_content = [] then (([], []), fs1, st)
          else
            (case sample_runs test True NUM_TEST_RUNS st [] of
               (Inl e, st1) \<Rightarrow> (([], []), snd (restore_optimized g optimized_content fs1), st1)
             | (Inr original_frame_times, st1) \<Rightarrow>
                 (let fs2 = snd (restore_optimized g optimized_content fs1)
                  in case sample_runs test False NUM_TEST_RUNS st1 [] of
                       (Inl e, st2) \<Rightarrow> (([], []), snd (restore_optimized g optimized_content fs2), st2)
                     | (Inr optimized_frame_times, st2) \<Rightarrow>
                         ((original_frame_times, optimized_frame_times), fs2, st2))))"

text \<open>
  The measurement source of the script: \<^verbatim>\<open>simulate_rendering_test\<close>,
  which keeps no state between calls.
\<close>

definition simulated :: "bool \<Rightarrow> 's \<Rightarrow> (error + real) \<times> 's" where
  "simulated is_original st = (simulate_rendering_test is_original, st)"


record change_report =
  additions :: nat
  deletions :: nat
  changes :: nat
  m1_optimizations :: "string list"

text \<open>One turn of the counting loop over the lines of the diff text.\<close>

definition count_line :: "string \<Rightarrow> nat \<times> nat \<times> nat \<Rightarrow> nat \<times> nat \<times> nat" where
  "count_line line acc =
     (case acc of (a, d, c) \<Rightarrow>
        if prefix ''+'' line \<and> \<not> prefix ''+++'' line then (a + 1, d, c)
        else if prefix ''-'' line \<and> \<not> prefix ''---'' line then (a, d + 1, c)
        else if prefix ''@@'' line then (a, d, c + 1)
        else (a, d, c))"



text \<open>\<^verbatim>\<open>statistics.mean\<close> and the division of two floats.\<close>

definition mean :: "real list \<Rightarrow> error + real" where
  "mean xs = (if xs = [] then Inl StatisticsError else Inr (sum_list xs / real (length xs)))"

definition divide :: "real \<Rightarrow> real \<Rightarrow> error + real" where
  "divide a b = (if b = 0 then Inl ZeroDivisionError else Inr (a / b))"

record variant_results =
  avg_frame_time_ms :: real
  estimated_fps :: real
  all_runs_ms :: "real list"

record results =
  original :: variant_results
  m1_optimized :: variant_results
  improvement_percentage :: real
  code_changes :: "change_report option"

text \<open>
  The statistics both \<^verbatim>\<open>visualize_results\<close> and \<^verbatim>\<open>main\<close> compute, in
  the order of the script: the two means, the improvement percentage, the two
  frame rates.
\<close>

definition statistics :: "real list \<Rightarrow> real list \<Rightarrow> error + (real \<times> real \<times> real \<times> real \<times> real)" where
  "statistics original_times optimized_times =
     (case mean original_times of Inl e \<Rightarrow> Inl e | Inr avg_original \<Rightarrow>
      case mean optimized_times of Inl e \<Rightarrow> Inl e | Inr avg_optimized \<Rightarrow>
      case divide (avg_original - avg_optimized) avg_original of Inl e \<Rightarrow> Inl e | Inr ratio \<Rightarrow>
      case divide 1000 avg_original of Inl e \<Rightarrow> Inl e | Inr fps_original \<Rightarrow>
      case divide 1000 avg_optimized of Inl e \<Rightarrow> Inl e | Inr fps_optimized \<Rightarrow>
        Inr (avg_original, avg_optimized, ratio * 100, fps_original, fps_optimized))"

text \<open>
  \<^verbatim>\<open>visualize_results\<close> ends in one of three ways, none of them an
  exception: it returns at once and writes nothing; an exception inside is
  caught and printed, before anything is written; the image and the results
  file are written.
\<close>

datatype outcome = NoOutput | ErrorPrinted error | Saved results

definition visualize_results ::
  "real list \<Rightarrow> real list \<Rightarrow> change_report option \<Rightarrow> error + outcome" where
  "visualize_results original_times optimized_times code_change =
     (if original_times = [] \<or> optimized_times = [] then Inr NoOutput
      else
        (case statistics original_times optimized_times of
           Inl e \<Rightarrow> Inr (ErrorPrinted e)
         | Inr (avg_original, avg_optimized, improvement_pct, fps_original, fps_optimized) \<Rightarrow>
             Inr (Saved
               \<lparr>original = \<lparr>avg_frame_time_ms = avg_original, estimated_fps = fps_original,
                              all_runs_ms = original_times\<rparr>,
                m1_optimized = \<lparr>avg_frame_time_ms = avg_optimized, estimated_fps = fps_optimized,
                                  all_runs_ms = optimized_times\<rparr>,
                improvement_percentage = improvement_pct,
                code_changes = code_change\<rparr>)))"

text \<open>
  The summary at the end of \<^verbatim>\<open>main\<close>: the same statistics, not guarded by
  a handler, and the message chosen by the improvement percentage.
\<close>

datatype verdict = Significant | Moderate | Minor

record summary =
  avg_original :: real
  avg_optimized :: real
  improvement_pct :: real
  fps_original :: real
  fps_optimized :: real
  message :: verdict

definition main_summary :: "real list \<Rightarrow> real list \<Rightarrow> error + summary" where
  "main_summary original_times optimized_times =
     (case statistics original_times optimized_times of
        Inl e \<Rightarrow> Inl e
      | Inr (ao, ap, pct, fo, fp) \<Rightarrow>
          Inr \<lparr>avg_original = ao, avg_optimized = ap, improvement_pct = pct,
               fps_original = fo, fps_optimized = fp,
               message = (if pct > 15 then Significant else if pct > 5 then Moderate else Minor)\<rparr>)"



section \<open>Properties of the path extraction\<close>


















lemma strip_tags_no_lt: "CHR ''<'' \<notin> set t \<Longrightarrow> strip_tags (t @ s) = t @ strip_tags s"
  by (induction t) auto

lemma strip_tags_id: "CHR ''<'' \<notin> set t \<Longrightarrow> strip_tags t = t"
  using strip_tags_no_lt [of t "[]"] by simp



















section \<open>Properties of reading in text mode\<close>

lemma universal_newlines_Nil_iff: "universal_newlines c = [] \<longleftrightarrow> c = []"
  by (induction c rule: universal_newlines.induct) auto

lemma universal_newlines_no_cr: "carriage_return \<notin> set (universal_newlines c)"
  by (induction c rule: universal_newlines.induct) (auto simp: carriage_return_def newline_def)

lemma universal_newlines_id: "carriage_return \<notin> set c \<Longrightarrow> universal_newlines c = c"
  by (induction c rule: universal_newlines.induct) auto

lemma universal_newlines_id_iff: "universal_newlines c = c \<longleftrightarrow> carriage_return \<notin> set c"
  using universal_newlines_no_cr [of c] universal_newlines_id [of c] by auto

section \<open>Properties of the optimizer\<close>



text \<open>
  Claim C10. When both repository-context files are missing,
  \<^verbatim>\<open>identify_critical_file\<close> sends no request and returns the first entry
  of \<^verbatim>\<open>RENDERING_FILES\<close> that exists, or the first entry of the list when
  none exists; the returned value is a path, not \<^verbatim>\<open>None\<close>.
\<close>

theorem missing_context_no_request:
  assumes "files fs COMPRESSED_FILE = None" and "files fs UNCOMPRESSED_FILE = None"
  shows "identify_critical_file b64encode resp fs =
           (Inr (Some (case List.find (path_exists fs) RENDERING_FILES of
                         Some fallback \<Rightarrow> fallback
                       | None \<Rightarrow> ''render/fluid.wgsl'')), 0)"
  using assms
  by (simp add: identify_critical_file_def encode_file_def first_item_def RENDERING_FILES_def
      split: option.splits)

theorem missing_context_no_request_witness:
  "identify_critical_file id \<lparr>status_code = 200, body = JsonObject (Text ''x/y.ts'')\<rparr>
     \<lparr>files = [''render/fluidRender.ts'' \<mapsto> ''code''], dirs = (\<lambda>p. False)\<rparr>
     = (Inr (Some ''render/fluidRender.ts''), 0) \<and>
   identify_critical_file id \<lparr>status_code = 200, body = JsonObject (Text ''x/y.ts'')\<rparr>
     \<lparr>files = Map.empty, dirs = (\<lambda>p. False)\<rparr>
     = (Inr (Some ''render/fluid.wgsl''), 0)"
  using
    missing_context_no_request [of "\<lparr>files = [''render/fluidRender.ts'' \<mapsto> ''code''], dirs = (\<lambda>p. False)\<rparr>"
      id "\<lparr>status_code = 200, body = JsonObject (Text ''x/y.ts'')\<rparr>"]
    missing_context_no_request [of "\<lparr>files = Map.empty, dirs = (\<lambda>p. False)\<rparr>"
      id "\<lparr>status_code = 200, body = JsonObject (Text ''x/y.ts'')\<rparr>"]
  by (simp add: COMPRESSED_FILE_def UNCOMPRESSED_FILE_def RENDERING_FILES_def path_exists_def)

section \<open>Properties of the backup and the benchmark\<close>

text \<open>
  Claim C2, as the code has it. For a tracked file: copying it to its
  \<^verbatim>\<open>.bak\<close> sibling, then \<^verbatim>\<open>temporarily_restore_original\<close>, then
  \<^verbatim>\<open>restore_optimized\<close> with the text the second step returned, all
  succeed. The copy keeps the bytes, but the text handed back and written
  last went through a read in text mode: the live file ends with every
  carriage return, with or without a line feed behind it, replaced by one
  line feed. It holds what it held before the copy exactly when it had no
  carriage return.
\<close>

theorem capture_restore_reinstate:
  assumes "files fs path = Some c" and "path \<noteq> []"
  shows "\<exists>fs1 fs2 fs3.
           copy2 fs path (path @ ''.bak'') = Inr fs1 \<and>
           temporarily_restore_original
             \<lparr>ORIGINAL_FILE = Some (path @ ''.bak''), OPTIMIZED_FILE = Some path\<rparr> fs1
             = (Content (universal_newlines c), fs2) \<and>
           restore_optimized
             \<lparr>ORIGINAL_FILE = Some (path @ ''.bak''), OPTIMIZED_FILE = Some path\<rparr>
             (universal_newlines c) fs2
             = (True, fs3) \<and>
           files fs3 path = Some (universal_newlines c) \<and>
           (files fs3 path = files fs path \<longleftrightarrow> carriage_return \<notin> set c)"
  using assms
  by (simp add: copy2_def temporarily_restore_original_def restore_optimized_def truthy_def
      read_text_def write_text_def universal_newlines_id_iff)

theorem capture_restore_reinstate_witness:
  "\<exists>fs1 fs2 fs3.
     copy2 \<lparr>files = [''a.ts'' \<mapsto> ''x''], dirs = (\<lambda>p. False)\<rparr> ''a.ts'' (''a.ts'' @ ''.bak'') = Inr fs1 \<and>
     temporarily_restore_original
       \<lparr>ORIGINAL_FILE = Some (''a.ts'' @ ''.bak''), OPTIMIZED_FILE = Some ''a.ts''\<rparr> fs1
       = (Content ''x'', fs2) \<and>
     restore_optimized
       \<lparr>ORIGINAL_FILE = Some (''a.ts'' @ ''.bak''), OPTIMIZED_FILE = Some ''a.ts''\<rparr> ''x'' fs2
       = (True, fs3) \<and>
     files fs3 ''a.ts'' = Some ''x''"
  using capture_restore_reinstate [of "\<lparr>files = [''a.ts'' \<mapsto> ''x''], dirs = (\<lambda>p. False)\<rparr>" "''a.ts''" "''x''"]
  by (simp add: carriage_return_def)

text \<open>
  A live file with a line that ends in carriage return and line feed does not
  come back as it was: of \<^verbatim>\<open>a\r\nb\<close> the three steps leave \<^verbatim>\<open>a\nb\<close>.
\<close>

theorem crlf_not_restored_counterexample:
  "\<exists>fs1 fs2 fs3.
     copy2 \<lparr>files = [''a.ts'' \<mapsto> [CHR ''a'', CHR 0x0D, CHR 0x0A, CHR ''b'']], dirs = (\<lambda>p. False)\<rparr>
       ''a.ts'' ''a.ts.bak'' = Inr fs1 \<and>
     temporarily_restore_original
       \<lparr>ORIGINAL_FILE = Some ''a.ts.bak'', OPTIMIZED_FILE = Some ''a.ts''\<rparr> fs1
       = (Content [CHR ''a'', CHR 0x0A, CHR ''b''], fs2) \<and>
     restore_optimized
       \<lparr>ORIGINAL_FILE = Some ''a.ts.bak'', OPTIMIZED_FILE = Some ''a.ts''\<rparr>
       [CHR ''a'', CHR 0x0A, CHR ''b''] fs2
       = (True, fs3) \<and>
     files fs3 ''a.ts'' = Some [CHR ''a'', CHR 0x0A, CHR ''b''] \<and>
     files fs3 ''a.ts'' \<noteq> Some [CHR ''a'', CHR 0x0D, CHR 0x0A, CHR ''b'']"
  by (simp add: copy2_def temporarily_restore_original_def restore_optimized_def truthy_def
      read_text_def write_text_def carriage_return_def newline_def)

text \<open>
  Claim C1 fails on the code where the live file is empty. The early return
  of \<^verbatim>\<open>measure_performance\<close> tests the truth value of what
  \<^verbatim>\<open>temporarily_restore_original\<close> returned; the empty text counts as
  false there, although the backup has been written over the live file
  already. The call returns two empty lists and leaves the original text in
  the live file.
\<close>

theorem measure_performance_empty_optimized:
  "measure_performance test
     \<lparr>ORIGINAL_FILE = Some ''f.ts.bak'', OPTIMIZED_FILE = Some ''f.ts''\<rparr>
     \<lparr>files = [''f.ts'' \<mapsto> [], ''f.ts.bak'' \<mapsto> ''old''], dirs = (\<lambda>p. False)\<rparr> st
   = (([], []),
      \<lparr>files = [''f.ts'' \<mapsto> ''old'', ''f.ts.bak'' \<mapsto> ''old''], dirs = (\<lambda>p. False)\<rparr>, st)"
  by (simp add: measure_performance_def temporarily_restore_original_def truthy_def
      read_text_def write_text_def carriage_return_def fun_upd_twist)

text \<open>
  Where the live file is not empty the benchmark does write back what it
  read: on every path of \<^verbatim>\<open>measure_performance\<close>, with any measurement
  source, the live file holds afterwards the text it held before, as a read
  in text mode gives it.
\<close>

lemma measure_performance_restores:
  assumes "OPTIMIZED_FILE g = Some live" and "files fs live = Some c" and "c \<noteq> []"
  shows "files (fst (snd (measure_performance test g fs st))) live = Some c \<or>
         files (fst (snd (measure_performance test g fs st))) live = Some (universal_newlines c)"
proof (cases "truthy (ORIGINAL_FILE g) \<and> truthy (OPTIMIZED_FILE g)")
  case False
  then show ?thesis
    using assms by (simp add: measure_performance_def temporarily_restore_original_def)
next
  case True
  then obtain backup where b: "ORIGINAL_FILE g = Some backup"
    by (auto simp: truthy_def split: option.splits)
  have live: "live \<noteq> []" using True assms(1) by (simp add: truthy_def)
  show ?thesis
  proof (cases "files fs backup")
    case None
    then show ?thesis
      using True assms b
      by (simp add: measure_performance_def temporarily_restore_original_def read_text_def)
  next
    case (Some orig)
    have tro: "temporarily_restore_original g fs
                 = (Content (universal_newlines c), write_text fs live (universal_newlines orig))"
      using True assms b Some
      by (simp add: temporarily_restore_original_def read_text_def)
    have ro: "files (snd (restore_optimized g (universal_newlines c) fs')) live
                = Some (universal_newlines c)" for fs'
      using assms(1) live by (simp add: restore_optimized_def write_text_def)
    have ne: "universal_newlines c \<noteq> []"
      using assms(3) by (simp add: universal_newlines_Nil_iff)
    show ?thesis
      unfolding measure_performance_def tro
      using ne ro
      by (auto simp: Let_def split: prod.splits sum.splits)
  qed
qed

text \<open>
  Claim C9 fails on the code: no sample is ever produced. Every call of
  \<^verbatim>\<open>simulate_rendering_test\<close>, for either variant, ends in the
  \<^verbatim>\<open>AttributeError\<close> of its first \<^verbatim>\<open>statistics.normalvariate\<close>;
  \<^verbatim>\<open>measure_performance\<close> catches it in its first run and returns two
  empty lists.
\<close>

theorem simulate_rendering_test_raises:
  "simulate_rendering_test is_original = Inl AttributeError \<and>
   fst (measure_performance simulated g fs st) = ([], [])"
proof
  show "simulate_rendering_test is_original = Inl AttributeError"
    by (simp add: simulate_rendering_test_def normalvariate_def)
next
  have runs: "sample_runs simulated True NUM_TEST_RUNS st [] = (Inl AttributeError, st)"
    by (simp add: NUM_TEST_RUNS_def eval_nat_numeral simulated_def
        simulate_rendering_test_def normalvariate_def)
  obtain r fs1 where tro: "temporarily_restore_original g fs = (r, fs1)"
    by (cases "temporarily_restore_original g fs") auto
  show "fst (measure_performance simulated g fs st) = ([], [])"
    unfolding measure_performance_def tro
    by (cases r) (simp_all add: runs)
qed

section \<open>Properties of the report\<close>

text \<open>
  Claim C5, as the code has it. With an empty list of optimized samples,
  whatever the original samples are, \<^verbatim>\<open>visualize_results\<close> returns at
  once: it raises nothing and writes no report.
\<close>

theorem visualize_results_empty_optimized:
  "visualize_results original_times [] code_change = Inr NoOutput"
  by (simp add: visualize_results_def)

text \<open>The call returns; no exception reaches the caller.\<close>

theorem visualize_results_returns_counterexample:
  "visualize_results [20] [] None = Inr NoOutput"
  by (simp add: visualize_results_def)

text \<open>
  Claim C6. For the original samples 20, 20, 20 and the optimized samples
  15, 15, 15 the improvement percentage is 25, the message is the one for a
  significant improvement, and the optimized frame rate is 66.67 within 0.01,
  in the results file and in the summary of \<^verbatim>\<open>main\<close> alike.
\<close>

theorem scenario_20_15:
  "(case visualize_results [20, 20, 20] [15, 15, 15] None of
      Inr (Saved r) \<Rightarrow>
        improvement_percentage r = 25 \<and> \<bar>estimated_fps (m1_optimized r) - 66.67\<bar> \<le> 0.01
    | _ \<Rightarrow> False) \<and>
   (case main_summary [20, 20, 20] [15, 15, 15] of
      Inr s \<Rightarrow> improvement_pct s = 25 \<and> message s = Significant
                 \<and> \<bar>fps_optimized s - 66.67\<bar> \<le> 0.01
    | Inl e \<Rightarrow> False)"
  by (simp add: visualize_results_def main_summary_def statistics_def mean_def divide_def)

section \<open>Properties of the change analysis\<close>



















lemma count_no_diff: "fold count_line (split_nl (join_nl [])) (0, 0, 0) = (0, 0, 0)"
  by (simp add: count_line_def)











end
